theory Spec2Isabelle
  imports Main
begin

section \<open>Errors and results\<close>

text \<open>
  Modelled from the spec: the sentinel errors \<open>backendplugin.ErrPluginUnavailable\<close> and
  \<open>backendplugin.ErrMethodNotImplemented\<close> are declared in package \<open>backendplugin\<close>, whose
  declaration file is not part of the sources at hand. They are two package-level error
  values, so two constructors. Every other error value (the one \<open>Start\<close> builds with
  \<open>errors.New\<close>, and whatever a transport, a handler or a constructor returns) is an
  \<open>errors_New\<close> carrying its message.
\<close>

datatype error = ErrPluginUnavailable | ErrMethodNotImplemented | errors_New string

text \<open>
  A Go method returning \<open>(*T, error)\<close> returns a pair of two nilable values; both are kept,
  so that "returned as is" can be stated for the pair.
\<close>

type_synonym 'a result = "'a option \<times> error option"

text \<open>
  A method call on a nil interface value panics. The capability methods of the gRPC plugin
  call methods on the value \<open>getPluginClient\<close> hands out, so their model has the panic as
  an outcome of its own.
\<close>

datatype 'a outcome = Return 'a | NilDereference

section \<open>Values of the plugin SDK\<close>

text \<open>
  The request and response envelopes, the context and the response sinks belong to the
  plugin SDK. The plugin code never inspects them; they are opaque payloads here.
\<close>

type_synonym Context = string
type_synonym CheckHealthRequest = string
type_synonym CheckHealthResult = string
type_synonym CollectMetricsResult = string
type_synonym CallResourceRequest = string
type_synonym CallResourceResponseSender = string
type_synonym SubscribeStreamRequest = string
type_synonym SubscribeStreamResponse = string
type_synonym PublishStreamRequest = string
type_synonym PublishStreamResponse = string
type_synonym RunStreamRequest = string
type_synonym StreamPacketSender = string
type_synonym QueryDataRequest = string
type_synonym QueryDataResponse = string

text \<open>
  The handler interfaces of the SDK. An interface with one method is the function itself;
  \<open>backend.StreamHandler\<close> has three methods.
\<close>

type_synonym CheckHealthHandler = "Context \<Rightarrow> CheckHealthRequest \<Rightarrow> CheckHealthResult result"
type_synonym CallResourceHandler =
  "Context \<Rightarrow> CallResourceRequest \<Rightarrow> CallResourceResponseSender \<Rightarrow> error option"
type_synonym QueryDataHandler = "Context \<Rightarrow> QueryDataRequest \<Rightarrow> QueryDataResponse result"

record StreamHandler =
  SubscribeStream :: "Context \<Rightarrow> SubscribeStreamRequest \<Rightarrow> SubscribeStreamResponse result"
  PublishStream :: "Context \<Rightarrow> PublishStreamRequest \<Rightarrow> PublishStreamResponse result"
  RunStream :: "Context \<Rightarrow> RunStreamRequest \<Rightarrow> StreamPacketSender \<Rightarrow> error option"

section \<open>The gRPC plugin\<close>

text \<open>
  \<open>type pluginClient interface\<close> embeds \<open>CollectMetricsHandler\<close>, \<open>CheckHealthHandler\<close>,
  \<open>CallResourceHandler\<close> and \<open>StreamHandler\<close>: its method set is the six methods.
\<close>

record pluginClient = StreamHandler +
  CollectMetrics :: "Context \<Rightarrow> CollectMetricsResult result"
  CheckHealth :: "Context \<Rightarrow> CheckHealthRequest \<Rightarrow> CheckHealthResult result"
  CallResource ::
    "Context \<Rightarrow> CallResourceRequest \<Rightarrow> CallResourceResponseSender \<Rightarrow> error option"

text \<open>
  \<open>*plugin.Client\<close> is the subprocess handle of the go-plugin library. The plugin code
  uses four of its methods. The handle is the object as the library keeps it: \<open>Client\<close> is
  what \<open>Client()\<close> returns (the RPC connection or an error), \<open>NegotiatedVersion\<close> the
  protocol version of the handshake, \<open>Exited\<close> what \<open>Exited()\<close> reports. \<open>addr\<close> is the
  identity of the pointer: \<open>plugin.NewClient\<close> allocates a new handle at every call.
  \<open>spawned\<close> says whether the handle has a subprocess: \<open>Client()\<close> spawns it, and when
  the executable cannot be run (fork/exec fails) the handle has none. The library sets
  the exited flag when a spawned subprocess has ended, so a handle without a subprocess
  never reports that it has exited.
\<close>

type_synonym ClientProtocol = nat

record plugin_Client =
  addr :: nat
  Client :: "error + ClientProtocol"
  NegotiatedVersion :: int
  Exited :: bool
  spawned :: bool

text \<open>
  \<open>Kill()\<close> returns at once when the handle has no subprocess, and leaves the handle as
  it is. Otherwise it ends the subprocess and blocks until it has exited; from then on the
  handle reports that it has exited.
\<close>

definition Kill :: "plugin_Client \<Rightarrow> plugin_Client" where
  "Kill h = (if spawned h then h\<lparr>Exited := True\<rparr> else h)"

text \<open>
  Modelled from the spec: \<open>PluginDescriptor\<close> is declared in another file of package
  \<open>grpcplugin\<close>. It is the immutable identity of a plugin: its ID, the path of its
  executable, the protocol versions it supports and the managed flag, which are the four
  fields the plugin code reads.
\<close>

record PluginDescriptor =
  pluginID :: string
  executablePath :: string
  managed :: bool
  versionedPlugins :: "int list"

text \<open>
  \<open>newClientV1\<close> and \<open>newClientV2\<close> are defined in other files of the package. \<open>Start\<close>
  depends on nothing but what they return, the pair \<open>(pluginClient, error)\<close>, so they are
  parameters.
\<close>

record Constructors =
  newClientV1 :: "PluginDescriptor \<Rightarrow> ClientProtocol \<Rightarrow> pluginClient result"
  newClientV2 :: "PluginDescriptor \<Rightarrow> ClientProtocol \<Rightarrow> pluginClient result"

text \<open>
  \<open>type grpcPlugin struct\<close>. The logger is left out. The mutex is the subject of the last
  section. \<open>clientFactory\<close> is a closure around \<open>plugin.NewClient\<close>: each call allocates
  a handle, so the handle it returns in a call of \<open>Start\<close> is an argument of \<open>Start\<close>.
\<close>

record grpcPlugin =
  descriptor :: PluginDescriptor
  client :: "plugin_Client option"
  pluginClient :: "pluginClient option"
  decommissioned :: bool

definition newPlugin :: "PluginDescriptor \<Rightarrow> grpcPlugin" where
  "newPlugin d = \<lparr>descriptor = d, client = None, pluginClient = None, decommissioned = False\<rparr>"

definition grpcPlugin_PluginID :: "grpcPlugin \<Rightarrow> string" where
  "grpcPlugin_PluginID p = pluginID (descriptor p)"

text \<open>
  \<open>Start\<close>: the handle is stored first; the constructor's client is stored whatever the
  constructor's error is (\<open>p.pluginClient, err = newClientV2(...)\<close>); the nil check comes
  after both branches.
\<close>

definition grpcPlugin_Start ::
  "Constructors \<Rightarrow> plugin_Client \<Rightarrow> grpcPlugin \<Rightarrow> Context \<Rightarrow> error option \<times> grpcPlugin" where
  "grpcPlugin_Start K fresh p ctx =
     (let p1 = p\<lparr>client := Some fresh\<rparr> in
      case Client fresh of
        Inl err \<Rightarrow> (Some err, p1)
      | Inr rpcClient \<Rightarrow>
          (case (if NegotiatedVersion fresh > 1
                 then newClientV2 K (descriptor p1) rpcClient
                 else newClientV1 K (descriptor p1) rpcClient) of
             (c, err) \<Rightarrow>
               (let p2 = p1\<lparr>pluginClient := c\<rparr> in
                case err of
                  Some e \<Rightarrow> (Some e, p2)
                | None \<Rightarrow>
                    (case pluginClient p2 of
                       None \<Rightarrow> (Some (errors_New ''no compatible plugin implementation found''), p2)
                     | Some _ \<Rightarrow> (None, p2)))))"

definition grpcPlugin_Stop :: "grpcPlugin \<Rightarrow> Context \<Rightarrow> error option \<times> grpcPlugin" where
  "grpcPlugin_Stop p ctx =
     (case client p of
        Some h \<Rightarrow> (None, p\<lparr>client := Some (Kill h)\<rparr>)
      | None \<Rightarrow> (None, p))"

definition grpcPlugin_IsManaged :: "grpcPlugin \<Rightarrow> bool" where
  "grpcPlugin_IsManaged p = managed (descriptor p)"

definition grpcPlugin_Exited :: "grpcPlugin \<Rightarrow> bool" where
  "grpcPlugin_Exited p = (case client p of Some h \<Rightarrow> Exited h | None \<Rightarrow> True)"

definition grpcPlugin_Decommission :: "grpcPlugin \<Rightarrow> error option \<times> grpcPlugin" where
  "grpcPlugin_Decommission p = (None, p\<lparr>decommissioned := True\<rparr>)"

definition grpcPlugin_IsDecommissioned :: "grpcPlugin \<Rightarrow> bool" where
  "grpcPlugin_IsDecommissioned p = decommissioned p"

definition getPluginClient :: "grpcPlugin \<Rightarrow> pluginClient option \<times> bool" where
  "getPluginClient p =
     (case client p of
        None \<Rightarrow> (None, False)
      | Some h \<Rightarrow>
          if Exited h then (None, False)
          else (case pluginClient p of
                  None \<Rightarrow> (None, False)
                | Some c \<Rightarrow> (Some c, True)))"

text \<open>
  The six capability methods. Each one tests \<open>ok\<close> and then calls the method on the value
  it was handed; were that value nil, the call would panic.
\<close>

definition grpcPlugin_CollectMetrics ::
  "grpcPlugin \<Rightarrow> Context \<Rightarrow> CollectMetricsResult result outcome" where
  "grpcPlugin_CollectMetrics p ctx =
     (case getPluginClient p of
        (pc, ok) \<Rightarrow>
          if \<not> ok then Return (None, Some ErrPluginUnavailable)
          else (case pc of None \<Rightarrow> NilDereference | Some c \<Rightarrow> Return (CollectMetrics c ctx)))"

definition grpcPlugin_CheckHealth ::
  "grpcPlugin \<Rightarrow> Context \<Rightarrow> CheckHealthRequest \<Rightarrow> CheckHealthResult result outcome" where
  "grpcPlugin_CheckHealth p ctx req =
     (case getPluginClient p of
        (pc, ok) \<Rightarrow>
          if \<not> ok then Return (None, Some ErrPluginUnavailable)
          else (case pc of None \<Rightarrow> NilDereference | Some c \<Rightarrow> Return (CheckHealth c ctx req)))"

definition grpcPlugin_CallResource ::
  "grpcPlugin \<Rightarrow> Context \<Rightarrow> CallResourceRequest \<Rightarrow> CallResourceResponseSender
     \<Rightarrow> error option outcome" where
  "grpcPlugin_CallResource p ctx req sender =
     (case getPluginClient p of
        (pc, ok) \<Rightarrow>
          if \<not> ok then Return (Some ErrPluginUnavailable)
          else (case pc of
                  None \<Rightarrow> NilDereference
                | Some c \<Rightarrow> Return (CallResource c ctx req sender)))"

definition grpcPlugin_SubscribeStream ::
  "grpcPlugin \<Rightarrow> Context \<Rightarrow> SubscribeStreamRequest \<Rightarrow> SubscribeStreamResponse result outcome" where
  "grpcPlugin_SubscribeStream p ctx request =
     (case getPluginClient p of
        (pc, ok) \<Rightarrow>
          if \<not> ok then Return (None, Some ErrPluginUnavailable)
          else (case pc of
                  None \<Rightarrow> NilDereference
                | Some c \<Rightarrow> Return (SubscribeStream c ctx request)))"

definition grpcPlugin_PublishStream ::
  "grpcPlugin \<Rightarrow> Context \<Rightarrow> PublishStreamRequest \<Rightarrow> PublishStreamResponse result outcome" where
  "grpcPlugin_PublishStream p ctx request =
     (case getPluginClient p of
        (pc, ok) \<Rightarrow>
          if \<not> ok then Return (None, Some ErrPluginUnavailable)
          else (case pc of
                  None \<Rightarrow> NilDereference
                | Some c \<Rightarrow> Return (PublishStream c ctx request)))"

definition grpcPlugin_RunStream ::
  "grpcPlugin \<Rightarrow> Context \<Rightarrow> RunStreamRequest \<Rightarrow> StreamPacketSender \<Rightarrow> error option outcome" where
  "grpcPlugin_RunStream p ctx req sender =
     (case getPluginClient p of
        (pc, ok) \<Rightarrow>
          if \<not> ok then Return (Some ErrPluginUnavailable)
          else (case pc of
                  None \<Rightarrow> NilDereference
                | Some c \<Rightarrow> Return (RunStream c ctx req sender)))"

section \<open>Sequences of lifecycle operations\<close>

text \<open>
  What can happen to a \<open>grpcPlugin\<close> between two observations: a call of \<open>Start\<close> (with
  the handle the factory returns in that call), a call of \<open>Stop\<close>, a call of
  \<open>Decommission\<close>, or the death of the subprocess behind the stored handle. A handle
  without a subprocess has nothing that could die.
\<close>

datatype call = Start plugin_Client Context | Stop Context | Decommission | SubprocessExit

definition subprocess_exit :: "grpcPlugin \<Rightarrow> grpcPlugin" where
  "subprocess_exit p =
     p\<lparr>client := map_option (\<lambda>h. if spawned h then h\<lparr>Exited := True\<rparr> else h) (client p)\<rparr>"

fun perform :: "Constructors \<Rightarrow> call \<Rightarrow> grpcPlugin \<Rightarrow> grpcPlugin" where
  "perform K (Start fresh ctx) p = snd (grpcPlugin_Start K fresh p ctx)"
| "perform K (Stop ctx) p = snd (grpcPlugin_Stop p ctx)"
| "perform K Decommission p = snd (grpcPlugin_Decommission p)"
| "perform K SubprocessExit p = subprocess_exit p"

definition run :: "Constructors \<Rightarrow> call list \<Rightarrow> grpcPlugin \<Rightarrow> grpcPlugin" where
  "run K cs p = fold (perform K) cs p"

fun is_Start :: "call \<Rightarrow> bool" where
  "is_Start (Start fresh ctx) = True"
| "is_Start c = False"

section \<open>The core plugin\<close>

text \<open>
  \<open>type corePlugin struct\<close> embeds four handler interfaces, each of which may be nil. The
  logger is left out.
\<close>

record corePlugin =
  core_pluginID :: string
  CheckHealthHandler :: "CheckHealthHandler option"
  CallResourceHandler :: "CallResourceHandler option"
  QueryDataHandler :: "QueryDataHandler option"
  StreamHandler :: "StreamHandler option"

text \<open>\<open>New\<close> copies the four handlers of \<open>backend.ServeOpts\<close> into the plugin.\<close>

definition New ::
  "CheckHealthHandler option \<Rightarrow> CallResourceHandler option \<Rightarrow> QueryDataHandler option
     \<Rightarrow> StreamHandler option \<Rightarrow> string \<Rightarrow> corePlugin" where
  "New optsCheckHealth optsCallResource optsQueryData optsStream pid =
     \<lparr>core_pluginID = pid, CheckHealthHandler = optsCheckHealth,
      CallResourceHandler = optsCallResource, QueryDataHandler = optsQueryData,
      StreamHandler = optsStream\<rparr>"

definition corePlugin_Start :: "corePlugin \<Rightarrow> Context \<Rightarrow> error option \<times> corePlugin" where
  "corePlugin_Start cp ctx = (None, cp)"

definition corePlugin_Stop :: "corePlugin \<Rightarrow> Context \<Rightarrow> error option \<times> corePlugin" where
  "corePlugin_Stop cp ctx = (None, cp)"

definition corePlugin_IsManaged :: "corePlugin \<Rightarrow> bool" where
  "corePlugin_IsManaged cp = True"

definition corePlugin_Exited :: "corePlugin \<Rightarrow> bool" where
  "corePlugin_Exited cp = False"

definition corePlugin_Decommission :: "corePlugin \<Rightarrow> error option \<times> corePlugin" where
  "corePlugin_Decommission cp = (None, cp)"

definition corePlugin_IsDecommissioned :: "corePlugin \<Rightarrow> bool" where
  "corePlugin_IsDecommissioned cp = False"

definition corePlugin_CollectMetrics :: "corePlugin \<Rightarrow> Context \<Rightarrow> CollectMetricsResult result" where
  "corePlugin_CollectMetrics cp ctx = (None, Some ErrMethodNotImplemented)"

definition corePlugin_CheckHealth ::
  "corePlugin \<Rightarrow> Context \<Rightarrow> CheckHealthRequest \<Rightarrow> CheckHealthResult result" where
  "corePlugin_CheckHealth cp ctx req =
     (case CheckHealthHandler cp of
        Some h \<Rightarrow> h ctx req
      | None \<Rightarrow> (None, Some ErrMethodNotImplemented))"

definition corePlugin_CallResource ::
  "corePlugin \<Rightarrow> Context \<Rightarrow> CallResourceRequest \<Rightarrow> CallResourceResponseSender \<Rightarrow> error option" where
  "corePlugin_CallResource cp ctx req sender =
     (case CallResourceHandler cp of
        Some h \<Rightarrow> h ctx req sender
      | None \<Rightarrow> Some ErrMethodNotImplemented)"

definition corePlugin_SubscribeStream ::
  "corePlugin \<Rightarrow> Context \<Rightarrow> SubscribeStreamRequest \<Rightarrow> SubscribeStreamResponse result" where
  "corePlugin_SubscribeStream cp ctx req =
     (case StreamHandler cp of
        Some h \<Rightarrow> SubscribeStream h ctx req
      | None \<Rightarrow> (None, Some ErrMethodNotImplemented))"

definition corePlugin_PublishStream ::
  "corePlugin \<Rightarrow> Context \<Rightarrow> PublishStreamRequest \<Rightarrow> PublishStreamResponse result" where
  "corePlugin_PublishStream cp ctx req =
     (case StreamHandler cp of
        Some h \<Rightarrow> PublishStream h ctx req
      | None \<Rightarrow> (None, Some ErrMethodNotImplemented))"

definition corePlugin_RunStream ::
  "corePlugin \<Rightarrow> Context \<Rightarrow> RunStreamRequest \<Rightarrow> StreamPacketSender \<Rightarrow> error option" where
  "corePlugin_RunStream cp ctx req sender =
     (case StreamHandler cp of
        Some h \<Rightarrow> RunStream h ctx req sender
      | None \<Rightarrow> Some ErrMethodNotImplemented)"

section \<open>The mutex\<close>

text \<open>
  \<open>grpcPlugin.mutex\<close> is a \<open>sync.RWMutex\<close>. To say which lock a method takes and what it
  touches while holding it, each method is also given as the sequence of its lock
  operations and of its accesses to the three mutable fields, in program order, along its
  longest path (a deferred unlock is the last action).
\<close>

datatype field = client_field | pluginClient_field | decommissioned_field

datatype action = Lock | Unlock | RLock | RUnlock | Read field | Write field

datatype operation =
  M_Start | M_Stop | M_Exited | M_Decommission | M_IsDecommissioned | M_getPluginClient

fun body :: "operation \<Rightarrow> action list" where
  "body M_Start =
     [Lock, Write client_field, Read client_field, Read client_field,
      Write pluginClient_field, Read pluginClient_field, Unlock]"
| "body M_Stop = [Lock, Read client_field, Read client_field, Unlock]"
| "body M_Exited = [RLock, Read client_field, Read client_field, RUnlock]"
| "body M_Decommission = [RLock, Write decommissioned_field, RUnlock]"
| "body M_IsDecommissioned = [Read decommissioned_field]"
| "body M_getPluginClient =
     [RLock, Read client_field, Read client_field, Read pluginClient_field,
      Read pluginClient_field, RUnlock]"

text \<open>
  The mutex: one writer or any number of readers. \<open>Lock\<close> waits until nobody holds the
  mutex, \<open>RLock\<close> until no writer holds it.
\<close>

record RWMutex =
  writer :: bool
  readers :: nat

fun enabled :: "RWMutex \<Rightarrow> action \<Rightarrow> bool" where
  "enabled m Lock = (\<not> writer m \<and> readers m = 0)"
| "enabled m RLock = (\<not> writer m)"
| "enabled m a = True"

fun effect :: "action \<Rightarrow> RWMutex \<Rightarrow> RWMutex" where
  "effect Lock m = m\<lparr>writer := True\<rparr>"
| "effect Unlock m = m\<lparr>writer := False\<rparr>"
| "effect RLock m = m\<lparr>readers := Suc (readers m)\<rparr>"
| "effect RUnlock m = m\<lparr>readers := readers m - 1\<rparr>"
| "effect a m = m"

text \<open>
  Goroutines are interleaved: a configuration is the mutex and what each goroutine still
  has to do; a schedule names the goroutine that takes the next action. A schedule that
  picks a goroutine that is blocked or has finished is not a run.
\<close>

type_synonym config = "RWMutex \<times> action list list"

definition initial :: "action list list \<Rightarrow> config" where
  "initial ts = (\<lparr>writer = False, readers = 0\<rparr>, ts)"

fun step :: "nat \<Rightarrow> config \<Rightarrow> config option" where
  "step i (m, ts) =
     (if i < length ts then
        (case ts ! i of
           [] \<Rightarrow> None
         | a # rest \<Rightarrow> if enabled m a then Some (effect a m, ts[i := rest]) else None)
      else None)"

fun exec :: "nat list \<Rightarrow> config \<Rightarrow> config option" where
  "exec [] c = Some c"
| "exec (i # sched) c = (case step i c of None \<Rightarrow> None | Some c' \<Rightarrow> exec sched c')"

text \<open>
  A data race: two goroutines whose next actions access the same field, one of them
  writing. Neither is held back by the mutex at that point.
\<close>

fun conflict :: "action \<Rightarrow> action \<Rightarrow> bool" where
  "conflict (Write f) (Write g) = (f = g)"
| "conflict (Write f) (Read g) = (f = g)"
| "conflict (Read f) (Write g) = (f = g)"
| "conflict a b = False"

fun races_with :: "action \<Rightarrow> action list list \<Rightarrow> bool" where
  "races_with a [] = False"
| "races_with a ([] # ts) = races_with a ts"
| "races_with a ((b # rest) # ts) = (conflict a b \<or> races_with a ts)"

fun data_race_threads :: "action list list \<Rightarrow> bool" where
  "data_race_threads [] = False"
| "data_race_threads ([] # ts) = data_race_threads ts"
| "data_race_threads ((a # rest) # ts) = (races_with a ts \<or> data_race_threads ts)"

definition data_race :: "config \<Rightarrow> bool" where
  "data_race c = data_race_threads (snd c)"

text \<open>
  Every configuration that some schedule of at most \<open>n\<close> actions reaches from one of
  \<open>cs\<close>, level by level. Two methods are race free when no configuration their two
  goroutines can reach is a data race; a run takes at most as many actions as the two
  bodies have.
\<close>

fun successors :: "config \<Rightarrow> config list" where
  "successors (m, ts) = List.map_filter (\<lambda>i. step i (m, ts)) [0..<length ts]"

fun reach :: "nat \<Rightarrow> config list \<Rightarrow> config list" where
  "reach 0 cs = cs"
| "reach (Suc n) cs = cs @ reach n (remdups (concat (map successors cs)))"

definition remaining :: "config \<Rightarrow> nat" where
  "remaining c = sum_list (map length (snd c))"

definition race_free :: "operation \<Rightarrow> operation \<Rightarrow> bool" where
  "race_free a b =
     list_all (\<lambda>c. \<not> data_race c)
       (reach (length (body a) + length (body b)) [initial [body a, body b]])"

section \<open>Example values\<close>

definition example_descriptor :: PluginDescriptor where
  "example_descriptor =
     \<lparr>pluginID = ''example-datasource'', executablePath = ''/var/lib/plugins/example'',
      managed = True, versionedPlugins = [1, 2]\<rparr>"

definition example_clientV2 :: pluginClient where
  "example_clientV2 =
     \<lparr>SubscribeStream = (\<lambda>ctx request. (Some ''subscribed'', None)),
      PublishStream = (\<lambda>ctx request. (Some ''published'', None)),
      RunStream = (\<lambda>ctx req sender. None),
      CollectMetrics = (\<lambda>ctx. (Some ''metrics'', None)),
      CheckHealth = (\<lambda>ctx req. (Some ''OK'', None)),
      CallResource = (\<lambda>ctx req sender. Some (errors_New ''connection reset''))\<rparr>"

definition example_clientV1 :: pluginClient where
  "example_clientV1 =
     \<lparr>SubscribeStream = (\<lambda>ctx request. (None, Some ErrMethodNotImplemented)),
      PublishStream = (\<lambda>ctx request. (None, Some ErrMethodNotImplemented)),
      RunStream = (\<lambda>ctx req sender. Some ErrMethodNotImplemented),
      CollectMetrics = (\<lambda>ctx. (None, Some ErrMethodNotImplemented)),
      CheckHealth = (\<lambda>ctx req. (None, Some ErrMethodNotImplemented)),
      CallResource = (\<lambda>ctx req sender. Some ErrMethodNotImplemented)\<rparr>"

definition example_constructors :: Constructors where
  "example_constructors =
     \<lparr>newClientV1 = (\<lambda>d rpcClient. (Some example_clientV1, None)),
      newClientV2 = (\<lambda>d rpcClient. (Some example_clientV2, None))\<rparr>"

text \<open>Constructors of which the one for version 2 fails: no client, and an error.\<close>

definition failing_constructors :: Constructors where
  "failing_constructors =
     example_constructors
       \<lparr>newClientV2 := (\<lambda>d rpcClient. (None, Some (errors_New ''unknown service diagnostics'')))\<rparr>"

text \<open>
  A handle whose subprocess runs and has completed the handshake at version \<open>v\<close>, and a
  handle whose subprocess could not be spawned.
\<close>

definition live_handle :: "nat \<Rightarrow> int \<Rightarrow> plugin_Client" where
  "live_handle a v =
     \<lparr>addr = a, Client = Inr a, NegotiatedVersion = v, Exited = False, spawned = True\<rparr>"

definition failed_handle :: "nat \<Rightarrow> plugin_Client" where
  "failed_handle a =
     \<lparr>addr = a, Client = Inl (errors_New ''fork/exec: no such file or directory''),
      NegotiatedVersion = 0, Exited = False, spawned = False\<rparr>"

definition example_stream_free_core :: corePlugin where
  "example_stream_free_core =
     New (Some (\<lambda>ctx req. (Some ''OK'', None))) None None None ''testdata''"

section \<open>Facts shared by the theorems\<close>

lemma client_Start: "client (snd (grpcPlugin_Start K h p ctx)) = Some h"
  by (simp add: grpcPlugin_Start_def Let_def split: sum.splits prod.splits option.splits)

lemma client_perform_None:
  "client (perform K c p) = None \<longleftrightarrow> client p = None \<and> \<not> is_Start c"
  by (cases c) (simp_all add: client_Start grpcPlugin_Stop_def grpcPlugin_Decommission_def
      subprocess_exit_def split: option.splits)

lemma client_run_None:
  "client (run K cs p) = None \<longleftrightarrow> client p = None \<and> \<not> list_ex is_Start cs"
  unfolding run_def
  by (induction cs arbitrary: p) (auto simp: client_perform_None)

lemma pluginClient_perform:
  "pluginClient (perform K c p) \<noteq> None \<Longrightarrow> pluginClient p \<noteq> None \<or> is_Start c"
  by (cases c) (simp_all add: grpcPlugin_Stop_def grpcPlugin_Decommission_def
      subprocess_exit_def split: option.splits)

lemma handle_invariant_step:
  "(pluginClient p \<noteq> None \<longrightarrow> client p \<noteq> None)
    \<Longrightarrow> pluginClient (perform K c p) \<noteq> None \<longrightarrow> client (perform K c p) \<noteq> None"
  using pluginClient_perform [of K c p] client_perform_None [of K c p] by auto

lemma handle_invariant_run:
  "(pluginClient p \<noteq> None \<longrightarrow> client p \<noteq> None)
    \<Longrightarrow> pluginClient (run K cs p) \<noteq> None \<longrightarrow> client (run K cs p) \<noteq> None"
  unfolding run_def
proof (induction cs arbitrary: p)
  case Nil
  then show ?case by simp
next
  case (Cons c cs)
  have "pluginClient (perform K c p) \<noteq> None \<longrightarrow> client (perform K c p) \<noteq> None"
    using Cons.prems by (rule handle_invariant_step)
  from Cons.IH [OF this] show ?case by simp
qed

lemma getPluginClient_cases:
  "getPluginClient p = (None, False) \<or> (\<exists>c. getPluginClient p = (Some c, True))"
  by (simp add: getPluginClient_def split: option.splits)

lemma getPluginClient_unavailable_iff:
  "getPluginClient p = (None, False) \<longleftrightarrow>
     client p = None \<or> (\<exists>h. client p = Some h \<and> Exited h) \<or> pluginClient p = None"
  by (auto simp add: getPluginClient_def split: option.splits)

lemma getPluginClient_Some:
  "getPluginClient p = (Some c, ok) \<Longrightarrow>
     ok \<and> pluginClient p = Some c \<and> (\<exists>h. client p = Some h \<and> \<not> Exited h)"
  by (auto simp add: getPluginClient_def split: option.splits if_splits)

lemmas capability_defs =
  grpcPlugin_CollectMetrics_def grpcPlugin_CheckHealth_def grpcPlugin_CallResource_def
  grpcPlugin_SubscribeStream_def grpcPlugin_PublishStream_def grpcPlugin_RunStream_def

lemmas example_defs =
  example_descriptor_def example_clientV1_def example_clientV2_def example_constructors_def
  live_handle_def failed_handle_def newPlugin_def

section \<open>The subprocess handle and \<open>Exited\<close>\<close>

text \<open>
  C7. \<open>Exited()\<close> is true exactly when no subprocess handle is stored or the stored handle
  reports that its subprocess has exited; with a handle stored it is the handle's own
  answer. No handle stored means never started: over every sequence of operations on a
  new plugin, the handle is absent exactly when the sequence has no call of \<open>Start\<close>.
\<close>

theorem Exited_iff_unstarted_or_terminated:
  "(grpcPlugin_Exited p \<longleftrightarrow> client p = None \<or> (\<exists>h. client p = Some h \<and> Exited h))
   \<and> (\<forall>h. client p = Some h \<longrightarrow> grpcPlugin_Exited p = Exited h)
   \<and> (client (run K cs (newPlugin d)) = None \<longleftrightarrow> \<not> list_ex is_Start cs)"
proof (intro conjI)
  show "grpcPlugin_Exited p \<longleftrightarrow> client p = None \<or> (\<exists>h. client p = Some h \<and> Exited h)"
    by (simp add: grpcPlugin_Exited_def split: option.splits)
  show "\<forall>h. client p = Some h \<longrightarrow> grpcPlugin_Exited p = Exited h"
    by (simp add: grpcPlugin_Exited_def)
  show "client (run K cs (newPlugin d)) = None \<longleftrightarrow> \<not> list_ex is_Start cs"
    by (simp add: client_run_None newPlugin_def)
qed

theorem Exited_iff_unstarted_or_terminated_witness:
  "client (run example_constructors [Start (live_handle 101 2) ''ctx'', SubprocessExit]
             (newPlugin example_descriptor))
     = Some ((live_handle 101 2)\<lparr>Exited := True\<rparr>)
   \<and> grpcPlugin_Exited (run example_constructors [Start (live_handle 101 2) ''ctx'', SubprocessExit]
             (newPlugin example_descriptor))
   \<and> \<not> grpcPlugin_Exited (run example_constructors [Start (live_handle 101 2) ''ctx'']
             (newPlugin example_descriptor))"
proof -
  let ?p = "run example_constructors [Start (live_handle 101 2) ''ctx'', SubprocessExit]
             (newPlugin example_descriptor)"
  let ?q = "run example_constructors [Start (live_handle 101 2) ''ctx'']
             (newPlugin example_descriptor)"
  have p: "client ?p = Some ((live_handle 101 2)\<lparr>Exited := True\<rparr>)"
    by (simp add: run_def client_Start subprocess_exit_def) (simp add: live_handle_def)
  have q: "client ?q = Some (live_handle 101 2)"
    by (simp add: run_def client_Start)
  from Exited_iff_unstarted_or_terminated [of ?p] p
  have "grpcPlugin_Exited ?p" by simp
  moreover from Exited_iff_unstarted_or_terminated [of ?q] q
  have "\<not> grpcPlugin_Exited ?q" by (simp add: live_handle_def)
  ultimately show ?thesis using p by simp
qed

section \<open>The capability methods of the gRPC plugin\<close>

text \<open>
  C3. \<open>getPluginClient\<close> returns \<open>(nil, false)\<close> exactly when the subprocess handle is
  absent, the subprocess has exited, or no client was negotiated. In that case each of the
  six capability methods returns \<open>ErrPluginUnavailable\<close>. In every other case
  \<open>getPluginClient\<close> returns the stored client with \<open>true\<close>, and each method returns what
  that client's method returns, result and error unchanged. No method dereferences nil.
\<close>

theorem capability_calls_check_client_first:
  "(getPluginClient p = (None, False) \<longleftrightarrow>
      client p = None \<or> (\<exists>h. client p = Some h \<and> Exited h) \<or> pluginClient p = None)
   \<and> (getPluginClient p = (None, False) \<longrightarrow>
        grpcPlugin_CollectMetrics p ctx = Return (None, Some ErrPluginUnavailable)
      \<and> grpcPlugin_CheckHealth p ctx hreq = Return (None, Some ErrPluginUnavailable)
      \<and> grpcPlugin_CallResource p ctx rreq rsender = Return (Some ErrPluginUnavailable)
      \<and> grpcPlugin_SubscribeStream p ctx sreq = Return (None, Some ErrPluginUnavailable)
      \<and> grpcPlugin_PublishStream p ctx preq = Return (None, Some ErrPluginUnavailable)
      \<and> grpcPlugin_RunStream p ctx req sender = Return (Some ErrPluginUnavailable))
   \<and> (getPluginClient p \<noteq> (None, False) \<longrightarrow>
        (\<exists>c. getPluginClient p = (Some c, True) \<and> pluginClient p = Some c
           \<and> grpcPlugin_CollectMetrics p ctx = Return (CollectMetrics c ctx)
           \<and> grpcPlugin_CheckHealth p ctx hreq = Return (CheckHealth c ctx hreq)
           \<and> grpcPlugin_CallResource p ctx rreq rsender = Return (CallResource c ctx rreq rsender)
           \<and> grpcPlugin_SubscribeStream p ctx sreq = Return (SubscribeStream c ctx sreq)
           \<and> grpcPlugin_PublishStream p ctx preq = Return (PublishStream c ctx preq)
           \<and> grpcPlugin_RunStream p ctx req sender = Return (RunStream c ctx req sender)))
   \<and> grpcPlugin_CollectMetrics p ctx \<noteq> NilDereference
   \<and> grpcPlugin_CheckHealth p ctx hreq \<noteq> NilDereference
   \<and> grpcPlugin_CallResource p ctx rreq rsender \<noteq> NilDereference
   \<and> grpcPlugin_SubscribeStream p ctx sreq \<noteq> NilDereference
   \<and> grpcPlugin_PublishStream p ctx preq \<noteq> NilDereference
   \<and> grpcPlugin_RunStream p ctx req sender \<noteq> NilDereference"
proof -
  consider (down) "getPluginClient p = (None, False)"
    | (up) c where "getPluginClient p = (Some c, True)"
    using getPluginClient_cases [of p] by blast
  then show ?thesis
  proof cases
    case down
    then show ?thesis
      using getPluginClient_unavailable_iff [of p] by (simp add: capability_defs)
  next
    case up
    from getPluginClient_Some [OF up] have "pluginClient p = Some c" by simp
    with up show ?thesis
      using getPluginClient_unavailable_iff [of p] by (simp add: capability_defs)
  qed
qed

theorem capability_calls_check_client_first_witness:
  "getPluginClient (newPlugin example_descriptor) = (None, False)
   \<and> grpcPlugin_CheckHealth (newPlugin example_descriptor) ''ctx'' ''req''
       = Return (None, Some ErrPluginUnavailable)
   \<and> getPluginClient (snd (grpcPlugin_Start example_constructors (live_handle 101 2)
         (newPlugin example_descriptor) ''ctx'')) \<noteq> (None, False)
   \<and> grpcPlugin_CheckHealth (snd (grpcPlugin_Start example_constructors (live_handle 101 2)
         (newPlugin example_descriptor) ''ctx'')) ''ctx'' ''req'' = Return (Some ''OK'', None)
   \<and> grpcPlugin_CallResource (snd (grpcPlugin_Start example_constructors (live_handle 101 2)
         (newPlugin example_descriptor) ''ctx'')) ''ctx'' ''req'' ''sender''
       = Return (Some (errors_New ''connection reset''))"
proof -
  let ?p0 = "newPlugin example_descriptor"
  let ?p1 = "snd (grpcPlugin_Start example_constructors (live_handle 101 2) ?p0 ''ctx'')"
  have down: "getPluginClient ?p0 = (None, False)"
    by (simp add: getPluginClient_def newPlugin_def)
  have stored: "pluginClient ?p1 = Some example_clientV2"
    by (simp add: grpcPlugin_Start_def example_constructors_def live_handle_def)
  have alive: "\<not> Exited (live_handle 101 2)"
    by (simp add: live_handle_def)
  have up: "getPluginClient ?p1 \<noteq> (None, False)"
    by (simp add: getPluginClient_def client_Start stored alive)
  from capability_calls_check_client_first [of ?p0 "''ctx''" "''req''"] down
  have a: "grpcPlugin_CheckHealth ?p0 ''ctx'' ''req'' = Return (None, Some ErrPluginUnavailable)"
    by simp
  from capability_calls_check_client_first
         [of ?p1 "''ctx''" "''req''" "''req''" "''sender''"] up stored
  have b: "grpcPlugin_CheckHealth ?p1 ''ctx'' ''req'' = Return (CheckHealth example_clientV2 ''ctx'' ''req'')"
    and c: "grpcPlugin_CallResource ?p1 ''ctx'' ''req'' ''sender''
              = Return (CallResource example_clientV2 ''ctx'' ''req'' ''sender'')"
    by auto
  from down up a b c show ?thesis by (simp add: example_clientV2_def)
qed

section \<open>\<open>Stop\<close>\<close>

lemma Kill_idem: "Kill (Kill h) = Kill h"
  by (simp add: Kill_def)

text \<open>
  C8. \<open>Stop\<close> always returns nil. With a handle stored it calls \<open>Kill\<close> on it: a handle
  that has a subprocess reports afterwards that it has exited, and so does the plugin.
  With no handle stored \<open>Stop\<close> changes nothing, so on a plugin that was never started it
  is the identity. Calling it a second time gives the result and the state of the first
  call.
\<close>

theorem Stop_total_and_idempotent:
  "fst (grpcPlugin_Stop p ctx) = None
   \<and> (client p = None \<longrightarrow> snd (grpcPlugin_Stop p ctx) = p)
   \<and> (\<forall>h. client p = Some h \<longrightarrow>
         snd (grpcPlugin_Stop p ctx) = p\<lparr>client := Some (Kill h)\<rparr>
         \<and> (spawned h \<longrightarrow> Exited (Kill h) \<and> grpcPlugin_Exited (snd (grpcPlugin_Stop p ctx))))
   \<and> grpcPlugin_Stop (snd (grpcPlugin_Stop p ctx)) ctx' = grpcPlugin_Stop p ctx
   \<and> grpcPlugin_Stop (newPlugin d) ctx = (None, newPlugin d)"
proof (intro conjI)
  show "fst (grpcPlugin_Stop p ctx) = None"
    by (simp add: grpcPlugin_Stop_def split: option.splits)
  show "client p = None \<longrightarrow> snd (grpcPlugin_Stop p ctx) = p"
    by (simp add: grpcPlugin_Stop_def)
  show "\<forall>h. client p = Some h \<longrightarrow>
         snd (grpcPlugin_Stop p ctx) = p\<lparr>client := Some (Kill h)\<rparr>
         \<and> (spawned h \<longrightarrow> Exited (Kill h) \<and> grpcPlugin_Exited (snd (grpcPlugin_Stop p ctx)))"
    by (simp add: grpcPlugin_Stop_def grpcPlugin_Exited_def Kill_def)
  show "grpcPlugin_Stop (snd (grpcPlugin_Stop p ctx)) ctx' = grpcPlugin_Stop p ctx"
    by (cases "client p") (simp_all add: grpcPlugin_Stop_def Kill_idem)
  show "grpcPlugin_Stop (newPlugin d) ctx = (None, newPlugin d)"
    by (simp add: grpcPlugin_Stop_def newPlugin_def)
qed

theorem Stop_total_and_idempotent_witness:
  "client (snd (grpcPlugin_Start example_constructors (live_handle 101 2)
       (newPlugin example_descriptor) ''ctx'')) = Some (live_handle 101 2)
   \<and> spawned (live_handle 101 2)
   \<and> grpcPlugin_Exited (snd (grpcPlugin_Stop (snd (grpcPlugin_Start example_constructors
       (live_handle 101 2) (newPlugin example_descriptor) ''ctx'')) ''ctx''))
   \<and> client (snd (grpcPlugin_Start example_constructors (failed_handle 103)
       (newPlugin example_descriptor) ''ctx'')) = Some (failed_handle 103)
   \<and> snd (grpcPlugin_Stop (snd (grpcPlugin_Start example_constructors (failed_handle 103)
       (newPlugin example_descriptor) ''ctx'')) ''ctx'')
       = snd (grpcPlugin_Start example_constructors (failed_handle 103)
           (newPlugin example_descriptor) ''ctx'')
   \<and> client (newPlugin example_descriptor) = None
   \<and> snd (grpcPlugin_Stop (newPlugin example_descriptor) ''ctx'') = newPlugin example_descriptor"
proof -
  let ?p0 = "newPlugin example_descriptor"
  let ?p1 = "snd (grpcPlugin_Start example_constructors (live_handle 101 2) ?p0 ''ctx'')"
  let ?p3 = "snd (grpcPlugin_Start example_constructors (failed_handle 103) ?p0 ''ctx'')"
  have h: "client ?p1 = Some (live_handle 101 2)" by (rule client_Start)
  have f: "client ?p3 = Some (failed_handle 103)" by (rule client_Start)
  have n: "client ?p0 = None" by (simp add: newPlugin_def)
  have sp: "spawned (live_handle 101 2)" by (simp add: live_handle_def)
  have nk: "Kill (failed_handle 103) = failed_handle 103"
    by (simp add: Kill_def failed_handle_def)
  from Stop_total_and_idempotent [of ?p1 "''ctx''"] h sp
  have a: "grpcPlugin_Exited (snd (grpcPlugin_Stop ?p1 ''ctx''))" by blast
  from Stop_total_and_idempotent [of ?p3 "''ctx''"] f
  have "snd (grpcPlugin_Stop ?p3 ''ctx'') = ?p3\<lparr>client := Some (Kill (failed_handle 103))\<rparr>"
    by blast
  with f have b: "snd (grpcPlugin_Stop ?p3 ''ctx'') = ?p3"
    by (simp add: nk)
  from Stop_total_and_idempotent [of ?p0 "''ctx''"] n
  have c: "snd (grpcPlugin_Stop ?p0 ''ctx'') = ?p0" by blast
  from h sp a f b n c show ?thesis by simp
qed

section \<open>\<open>Start\<close> and the protocol version\<close>

text \<open>
  C4, as the claim has it, fails. A constructor that fails yields no client and an error,
  and \<open>Start\<close> returns that error right after the constructor's call, before it comes to
  the nil check: at version 2, with a \<open>newClientV2\<close> that fails, \<open>Start\<close> fails with the
  constructor's error and not with "no compatible plugin implementation found".
\<close>

theorem constructor_error_returned_counterexample:
  "Client (live_handle 101 2) = Inr 101
   \<and> NegotiatedVersion (live_handle 101 2) > 1
   \<and> fst (newClientV2 failing_constructors example_descriptor 101) = None
   \<and> pluginClient (snd (grpcPlugin_Start failing_constructors (live_handle 101 2)
         (newPlugin example_descriptor) ''ctx'')) = None
   \<and> fst (grpcPlugin_Start failing_constructors (live_handle 101 2)
         (newPlugin example_descriptor) ''ctx'')
       = Some (errors_New ''unknown service diagnostics'')
   \<and> fst (grpcPlugin_Start failing_constructors (live_handle 101 2)
         (newPlugin example_descriptor) ''ctx'')
       \<noteq> Some (errors_New ''no compatible plugin implementation found'')"
  by (simp add: grpcPlugin_Start_def failing_constructors_def example_constructors_def
      live_handle_def newPlugin_def)

text \<open>
  C4, amended. Let \<open>Start\<close> obtain the RPC connection of the new handle. With a negotiated version
  above 1 the client that \<open>newClientV2\<close> returns is stored, and \<open>newClientV1\<close> plays no
  part; otherwise (version 1, or 0 when none was negotiated) the client that
  \<open>newClientV1\<close> returns is stored. When the chosen constructor returns no error and no
  client, \<open>Start\<close> fails with "no compatible plugin implementation found"; when it returns
  an error, \<open>Start\<close> fails with that error; when it returns a client and no error,
  \<open>Start\<close> succeeds. Whenever \<open>Start\<close> succeeds, a client that is not nil is stored,
  together with the new handle.
\<close>

theorem Start_negotiates_by_version:
  assumes "Client h = Inr rpcClient"
  shows "(NegotiatedVersion h > 1 \<longrightarrow>
            pluginClient (snd (grpcPlugin_Start K h p ctx))
              = fst (newClientV2 K (descriptor p) rpcClient)
          \<and> grpcPlugin_Start (K\<lparr>newClientV1 := other\<rparr>) h p ctx = grpcPlugin_Start K h p ctx)
       \<and> (NegotiatedVersion h \<le> 1 \<longrightarrow>
            pluginClient (snd (grpcPlugin_Start K h p ctx))
              = fst (newClientV1 K (descriptor p) rpcClient)
          \<and> grpcPlugin_Start (K\<lparr>newClientV2 := other\<rparr>) h p ctx = grpcPlugin_Start K h p ctx)
       \<and> (\<forall>c e. (if NegotiatedVersion h > 1 then newClientV2 K (descriptor p) rpcClient
                  else newClientV1 K (descriptor p) rpcClient) = (c, e) \<longrightarrow>
              (e = None \<and> c = None \<longrightarrow>
                 fst (grpcPlugin_Start K h p ctx)
                   = Some (errors_New ''no compatible plugin implementation found''))
            \<and> (\<forall>err. e = Some err \<longrightarrow> fst (grpcPlugin_Start K h p ctx) = Some err)
            \<and> (e = None \<and> c \<noteq> None \<longrightarrow> fst (grpcPlugin_Start K h p ctx) = None))
       \<and> (fst (grpcPlugin_Start K h p ctx) = None \<longrightarrow>
            pluginClient (snd (grpcPlugin_Start K h p ctx)) \<noteq> None
          \<and> client (snd (grpcPlugin_Start K h p ctx)) = Some h)"
proof (intro conjI)
  show "NegotiatedVersion h > 1 \<longrightarrow>
          pluginClient (snd (grpcPlugin_Start K h p ctx))
            = fst (newClientV2 K (descriptor p) rpcClient)
        \<and> grpcPlugin_Start (K\<lparr>newClientV1 := other\<rparr>) h p ctx = grpcPlugin_Start K h p ctx"
    using assms by (simp add: grpcPlugin_Start_def Let_def split: prod.splits option.splits)
  show "NegotiatedVersion h \<le> 1 \<longrightarrow>
          pluginClient (snd (grpcPlugin_Start K h p ctx))
            = fst (newClientV1 K (descriptor p) rpcClient)
        \<and> grpcPlugin_Start (K\<lparr>newClientV2 := other\<rparr>) h p ctx = grpcPlugin_Start K h p ctx"
    using assms by (simp add: grpcPlugin_Start_def Let_def split: prod.splits option.splits)
  show "\<forall>c e. (if NegotiatedVersion h > 1 then newClientV2 K (descriptor p) rpcClient
                  else newClientV1 K (descriptor p) rpcClient) = (c, e) \<longrightarrow>
              (e = None \<and> c = None \<longrightarrow>
                 fst (grpcPlugin_Start K h p ctx)
                   = Some (errors_New ''no compatible plugin implementation found''))
            \<and> (\<forall>err. e = Some err \<longrightarrow> fst (grpcPlugin_Start K h p ctx) = Some err)
            \<and> (e = None \<and> c \<noteq> None \<longrightarrow> fst (grpcPlugin_Start K h p ctx) = None)"
    using assms by (auto simp add: grpcPlugin_Start_def Let_def split: if_splits)
  show "fst (grpcPlugin_Start K h p ctx) = None \<longrightarrow>
          pluginClient (snd (grpcPlugin_Start K h p ctx)) \<noteq> None
        \<and> client (snd (grpcPlugin_Start K h p ctx)) = Some h"
    using assms
    by (auto simp add: grpcPlugin_Start_def Let_def split: prod.splits option.splits if_splits)
qed

theorem Start_negotiates_by_version_witness:
  "Client (live_handle 101 2) = Inr 101
   \<and> fst (grpcPlugin_Start example_constructors (live_handle 101 2)
            (newPlugin example_descriptor) ''ctx'') = None
   \<and> pluginClient (snd (grpcPlugin_Start example_constructors (live_handle 101 2)
            (newPlugin example_descriptor) ''ctx'')) = Some example_clientV2
   \<and> Client (live_handle 102 1) = Inr 102
   \<and> pluginClient (snd (grpcPlugin_Start example_constructors (live_handle 102 1)
            (newPlugin example_descriptor) ''ctx'')) = Some example_clientV1
   \<and> fst (grpcPlugin_Start (example_constructors\<lparr>newClientV1 := (\<lambda>d rpcClient. (None, None))\<rparr>)
            (live_handle 102 1) (newPlugin example_descriptor) ''ctx'')
       = Some (errors_New ''no compatible plugin implementation found'')"
proof -
  let ?p0 = "newPlugin example_descriptor"
  let ?K = "example_constructors\<lparr>newClientV1 := (\<lambda>d rpcClient. (None, None))\<rparr>"
  have h2: "Client (live_handle 101 2) = Inr 101" and v2: "NegotiatedVersion (live_handle 101 2) > 1"
    by (simp_all add: live_handle_def)
  have h1: "Client (live_handle 102 1) = Inr 102" and v1: "NegotiatedVersion (live_handle 102 1) \<le> 1"
    by (simp_all add: live_handle_def)
  have k2: "newClientV2 example_constructors (descriptor ?p0) 101 = (Some example_clientV2, None)"
    and k1: "newClientV1 example_constructors (descriptor ?p0) 102 = (Some example_clientV1, None)"
    and k0: "newClientV1 ?K (descriptor ?p0) 102 = (None, None)"
    by (simp_all add: example_constructors_def)
  from Start_negotiates_by_version [OF h2, where K = example_constructors and p = ?p0 and ctx = "''ctx''"] v2 k2
  have a: "fst (grpcPlugin_Start example_constructors (live_handle 101 2) ?p0 ''ctx'') = None"
    and b: "pluginClient (snd (grpcPlugin_Start example_constructors (live_handle 101 2) ?p0 ''ctx''))
              = Some example_clientV2"
    by simp_all
  from Start_negotiates_by_version [OF h1, where K = example_constructors and p = ?p0 and ctx = "''ctx''"] v1 k1
  have c: "pluginClient (snd (grpcPlugin_Start example_constructors (live_handle 102 1) ?p0 ''ctx''))
              = Some example_clientV1"
    by simp
  from Start_negotiates_by_version [OF h1, where K = ?K and p = ?p0 and ctx = "''ctx''"] v1 k0
  have d: "fst (grpcPlugin_Start ?K (live_handle 102 1) ?p0 ''ctx'')
             = Some (errors_New ''no compatible plugin implementation found'')"
    by simp
  from h2 h1 a b c d show ?thesis by simp
qed

section \<open>Operations a handler does not support\<close>



section \<open>The core plugin as a process\<close>

text \<open>
  C10. On a core plugin \<open>Start\<close>, \<open>Stop\<close> and \<open>Decommission\<close> return nil and change
  nothing, \<open>Exited\<close> and \<open>IsDecommissioned\<close> are false and \<open>IsManaged\<close> is true.
  \<open>CollectMetrics\<close> returns \<open>ErrMethodNotImplemented\<close>; every other capability method
  returns either \<open>ErrMethodNotImplemented\<close> or exactly what the plugin's own handler
  returns. So \<open>ErrPluginUnavailable\<close> never originates in the core plugin.
\<close>

theorem corePlugin_never_unavailable:
  "corePlugin_Start cp ctx = (None, cp)
   \<and> corePlugin_Stop cp ctx = (None, cp)
   \<and> corePlugin_Decommission cp = (None, cp)
   \<and> corePlugin_Exited cp = False
   \<and> corePlugin_IsDecommissioned cp = False
   \<and> corePlugin_IsManaged cp = True
   \<and> corePlugin_CollectMetrics cp ctx = (None, Some ErrMethodNotImplemented)
   \<and> (corePlugin_CheckHealth cp ctx hreq = (None, Some ErrMethodNotImplemented)
        \<or> (\<exists>h. CheckHealthHandler cp = Some h \<and> corePlugin_CheckHealth cp ctx hreq = h ctx hreq))
   \<and> (corePlugin_CallResource cp ctx rreq rsender = Some ErrMethodNotImplemented
        \<or> (\<exists>h. CallResourceHandler cp = Some h
              \<and> corePlugin_CallResource cp ctx rreq rsender = h ctx rreq rsender))
   \<and> (corePlugin_SubscribeStream cp ctx sreq = (None, Some ErrMethodNotImplemented)
        \<or> (\<exists>h. StreamHandler cp = Some h
              \<and> corePlugin_SubscribeStream cp ctx sreq = SubscribeStream h ctx sreq))
   \<and> (corePlugin_PublishStream cp ctx preq = (None, Some ErrMethodNotImplemented)
        \<or> (\<exists>h. StreamHandler cp = Some h
              \<and> corePlugin_PublishStream cp ctx preq = PublishStream h ctx preq))
   \<and> (corePlugin_RunStream cp ctx req sender = Some ErrMethodNotImplemented
        \<or> (\<exists>h. StreamHandler cp = Some h
              \<and> corePlugin_RunStream cp ctx req sender = RunStream h ctx req sender))
   \<and> ErrMethodNotImplemented \<noteq> ErrPluginUnavailable"
  by (simp add: corePlugin_Start_def corePlugin_Stop_def corePlugin_Decommission_def
      corePlugin_Exited_def corePlugin_IsDecommissioned_def corePlugin_IsManaged_def
      corePlugin_CollectMetrics_def corePlugin_CheckHealth_def corePlugin_CallResource_def
      corePlugin_SubscribeStream_def corePlugin_PublishStream_def corePlugin_RunStream_def
      split: option.splits)

section \<open>\<open>Decommission\<close>\<close>

lemma decommissioned_perform: "decommissioned p \<Longrightarrow> decommissioned (perform K c p)"
  by (cases c) (simp_all add: grpcPlugin_Start_def grpcPlugin_Stop_def
      grpcPlugin_Decommission_def subprocess_exit_def Let_def
      split: sum.splits prod.splits option.splits)

lemma decommissioned_run: "decommissioned p \<Longrightarrow> decommissioned (run K cs p)"
  unfolding run_def
  by (induction cs arbitrary: p) (simp_all add: decommissioned_perform)

text \<open>
  C1, as the claim has it, fails: a plugin that was started at version 2, whose subprocess
  runs, and that was then decommissioned, still answers \<open>CheckHealth\<close> with its client's
  result.
\<close>

theorem decommissioned_plugin_still_serves_counterexample:
  "grpcPlugin_IsDecommissioned
     (run example_constructors [Start (live_handle 101 2) ''ctx'', Decommission]
        (newPlugin example_descriptor))
   \<and> grpcPlugin_CheckHealth
       (run example_constructors [Start (live_handle 101 2) ''ctx'', Decommission]
          (newPlugin example_descriptor)) ''ctx'' ''req''
     = Return (Some ''OK'', None)
   \<and> grpcPlugin_CheckHealth
       (run example_constructors [Start (live_handle 101 2) ''ctx'', Decommission]
          (newPlugin example_descriptor)) ''ctx'' ''req''
     \<noteq> Return (None, Some ErrPluginUnavailable)"
  by (simp add: run_def grpcPlugin_Start_def grpcPlugin_Decommission_def
      grpcPlugin_IsDecommissioned_def grpcPlugin_CheckHealth_def getPluginClient_def
      example_defs)

text \<open>
  C1, amended. \<open>Decommission\<close> returns nil and sets the flag, and nothing else: after it
  \<open>IsDecommissioned\<close> is true, and stays true over every later sequence of \<open>Start\<close>,
  \<open>Stop\<close>, \<open>Decommission\<close> and subprocess exits. \<open>getPluginClient\<close> and the six capability
  methods do not read the flag: each returns after \<open>Decommission\<close> what it returns before
  it.
\<close>

theorem Decommission_sets_the_flag_only:
  "fst (grpcPlugin_Decommission p) = None
   \<and> snd (grpcPlugin_Decommission p) = p\<lparr>decommissioned := True\<rparr>
   \<and> grpcPlugin_IsDecommissioned (snd (grpcPlugin_Decommission p))
   \<and> (grpcPlugin_IsDecommissioned p \<longrightarrow> grpcPlugin_IsDecommissioned (run K cs p))
   \<and> getPluginClient (snd (grpcPlugin_Decommission p)) = getPluginClient p
   \<and> grpcPlugin_CollectMetrics (snd (grpcPlugin_Decommission p)) ctx
       = grpcPlugin_CollectMetrics p ctx
   \<and> grpcPlugin_CheckHealth (snd (grpcPlugin_Decommission p)) ctx hreq
       = grpcPlugin_CheckHealth p ctx hreq
   \<and> grpcPlugin_CallResource (snd (grpcPlugin_Decommission p)) ctx rreq rsender
       = grpcPlugin_CallResource p ctx rreq rsender
   \<and> grpcPlugin_SubscribeStream (snd (grpcPlugin_Decommission p)) ctx sreq
       = grpcPlugin_SubscribeStream p ctx sreq
   \<and> grpcPlugin_PublishStream (snd (grpcPlugin_Decommission p)) ctx preq
       = grpcPlugin_PublishStream p ctx preq
   \<and> grpcPlugin_RunStream (snd (grpcPlugin_Decommission p)) ctx req sender
       = grpcPlugin_RunStream p ctx req sender"
proof -
  have same: "getPluginClient (snd (grpcPlugin_Decommission p)) = getPluginClient p"
    by (simp add: grpcPlugin_Decommission_def getPluginClient_def split: option.splits)
  have "grpcPlugin_IsDecommissioned p \<longrightarrow> grpcPlugin_IsDecommissioned (run K cs p)"
    by (simp add: grpcPlugin_IsDecommissioned_def decommissioned_run)
  with same show ?thesis
    by (simp add: capability_defs) (simp add: grpcPlugin_Decommission_def
        grpcPlugin_IsDecommissioned_def)
qed

theorem Decommission_sets_the_flag_only_witness:
  "grpcPlugin_IsDecommissioned (snd (grpcPlugin_Decommission (newPlugin example_descriptor)))
   \<and> grpcPlugin_IsDecommissioned
       (run example_constructors [Start (live_handle 101 2) ''ctx'', Stop ''ctx'']
          (snd (grpcPlugin_Decommission (newPlugin example_descriptor))))"
proof -
  let ?p = "snd (grpcPlugin_Decommission (newPlugin example_descriptor))"
  from Decommission_sets_the_flag_only [of "newPlugin example_descriptor"]
  have a: "grpcPlugin_IsDecommissioned ?p" by blast
  from Decommission_sets_the_flag_only
         [where p = ?p and K = example_constructors
            and cs = "[Start (live_handle 101 2) ''ctx'', Stop ''ctx'']"] a
  have "grpcPlugin_IsDecommissioned
          (run example_constructors [Start (live_handle 101 2) ''ctx'', Stop ''ctx''] ?p)"
    by blast
  with a show ?thesis by simp
qed

section \<open>When a client can be observed\<close>

text \<open>
  C2, as the claim has it, fails: \<open>Stop\<close> kills the subprocess and leaves the
  \<open>pluginClient\<close> field as it is, and so does the death of the subprocess. After a
  successful \<open>Start\<close> followed by \<open>Stop\<close>, the plugin has exited and still holds the
  client.
\<close>

theorem client_field_survives_Stop_counterexample:
  "grpcPlugin_Exited
     (run example_constructors [Start (live_handle 101 2) ''ctx'', Stop ''ctx'']
        (newPlugin example_descriptor))
   \<and> pluginClient
       (run example_constructors [Start (live_handle 101 2) ''ctx'', Stop ''ctx'']
          (newPlugin example_descriptor))
     = Some example_clientV2
   \<and> pluginClient
       (run example_constructors [Start (live_handle 101 2) ''ctx'', SubprocessExit]
          (newPlugin example_descriptor))
     = Some example_clientV2"
  by (simp add: run_def grpcPlugin_Start_def grpcPlugin_Stop_def grpcPlugin_Exited_def
      subprocess_exit_def Kill_def example_constructors_def live_handle_def newPlugin_def)

text \<open>
  C2, amended. What holds concerns what \<open>getPluginClient\<close> hands out and the handle that
  is stored, not the field. Over every sequence of operations on a new plugin: a client is
  handed out only while a handle is stored that does not report that it has exited, and it
  is the stored client; and a client is stored only if a handle is. A \<open>Start\<close> that obtains
  the RPC connection of its handle stores the client that the constructor returns for that
  connection; when it succeeds and its handle does not report that it has exited, that
  client is handed out. After \<open>Stop\<close>, and after the death of the subprocess,
  \<open>getPluginClient\<close> returns \<open>(nil, false)\<close>, provided the stored handle is one that has a
  subprocess. Neither of the two sets the field to nil: it keeps its value.
\<close>

theorem client_observable_only_while_alive:
  "(\<forall>c. fst (getPluginClient (run K cs (newPlugin d))) = Some c \<longrightarrow>
        pluginClient (run K cs (newPlugin d)) = Some c
      \<and> (\<exists>h. client (run K cs (newPlugin d)) = Some h \<and> \<not> Exited h))
   \<and> (pluginClient (run K cs (newPlugin d)) \<noteq> None \<longrightarrow> client (run K cs (newPlugin d)) \<noteq> None)
   \<and> (\<forall>rpcClient. Client h = Inr rpcClient \<longrightarrow>
        pluginClient (snd (grpcPlugin_Start K h p ctx))
          = fst (if NegotiatedVersion h > 1 then newClientV2 K (descriptor p) rpcClient
                 else newClientV1 K (descriptor p) rpcClient))
   \<and> (fst (grpcPlugin_Start K h p ctx) = None \<and> \<not> Exited h \<longrightarrow>
        (\<exists>c. pluginClient (snd (grpcPlugin_Start K h p ctx)) = Some c
           \<and> getPluginClient (snd (grpcPlugin_Start K h p ctx)) = (Some c, True)))
   \<and> ((\<forall>h'. client p = Some h' \<longrightarrow> spawned h') \<longrightarrow>
        getPluginClient (snd (grpcPlugin_Stop p ctx)) = (None, False))
   \<and> ((\<forall>h'. client p = Some h' \<longrightarrow> spawned h') \<longrightarrow>
        getPluginClient (subprocess_exit p) = (None, False))
   \<and> pluginClient (snd (grpcPlugin_Stop p ctx)) = pluginClient p
   \<and> pluginClient (subprocess_exit p) = pluginClient p"
proof (intro conjI)
  show "\<forall>c. fst (getPluginClient (run K cs (newPlugin d))) = Some c \<longrightarrow>
        pluginClient (run K cs (newPlugin d)) = Some c
      \<and> (\<exists>h. client (run K cs (newPlugin d)) = Some h \<and> \<not> Exited h)"
    using getPluginClient_Some [of "run K cs (newPlugin d)"]
    by (metis prod.collapse)
  show "pluginClient (run K cs (newPlugin d)) \<noteq> None \<longrightarrow> client (run K cs (newPlugin d)) \<noteq> None"
    by (rule handle_invariant_run) (simp add: newPlugin_def)
  show "\<forall>rpcClient. Client h = Inr rpcClient \<longrightarrow>
        pluginClient (snd (grpcPlugin_Start K h p ctx))
          = fst (if NegotiatedVersion h > 1 then newClientV2 K (descriptor p) rpcClient
                 else newClientV1 K (descriptor p) rpcClient)"
    by (simp add: grpcPlugin_Start_def Let_def split: prod.splits option.splits)
  show "fst (grpcPlugin_Start K h p ctx) = None \<and> \<not> Exited h \<longrightarrow>
        (\<exists>c. pluginClient (snd (grpcPlugin_Start K h p ctx)) = Some c
           \<and> getPluginClient (snd (grpcPlugin_Start K h p ctx)) = (Some c, True))"
    by (auto simp add: grpcPlugin_Start_def getPluginClient_def Let_def
        split: sum.splits prod.splits option.splits)
  show "(\<forall>h'. client p = Some h' \<longrightarrow> spawned h') \<longrightarrow>
        getPluginClient (snd (grpcPlugin_Stop p ctx)) = (None, False)"
    by (cases "client p") (simp_all add: grpcPlugin_Stop_def getPluginClient_def Kill_def)
  show "(\<forall>h'. client p = Some h' \<longrightarrow> spawned h') \<longrightarrow>
        getPluginClient (subprocess_exit p) = (None, False)"
    by (cases "client p") (simp_all add: subprocess_exit_def getPluginClient_def)
  show "pluginClient (snd (grpcPlugin_Stop p ctx)) = pluginClient p"
    by (simp add: grpcPlugin_Stop_def split: option.splits)
  show "pluginClient (subprocess_exit p) = pluginClient p"
    by (simp add: subprocess_exit_def)
qed

theorem client_observable_only_while_alive_witness:
  "fst (grpcPlugin_Start example_constructors (live_handle 101 2)
          (newPlugin example_descriptor) ''ctx'') = None
   \<and> \<not> Exited (live_handle 101 2)
   \<and> spawned (live_handle 101 2)
   \<and> getPluginClient (snd (grpcPlugin_Start example_constructors (live_handle 101 2)
          (newPlugin example_descriptor) ''ctx'')) = (Some example_clientV2, True)
   \<and> getPluginClient (snd (grpcPlugin_Stop (snd (grpcPlugin_Start example_constructors
          (live_handle 101 2) (newPlugin example_descriptor) ''ctx'')) ''ctx'')) = (None, False)
   \<and> getPluginClient (subprocess_exit (snd (grpcPlugin_Start example_constructors
          (live_handle 101 2) (newPlugin example_descriptor) ''ctx''))) = (None, False)
   \<and> pluginClient (snd (grpcPlugin_Stop (snd (grpcPlugin_Start example_constructors
          (live_handle 101 2) (newPlugin example_descriptor) ''ctx'')) ''ctx''))
       = Some example_clientV2"
proof -
  let ?p0 = "newPlugin example_descriptor"
  let ?p1 = "snd (grpcPlugin_Start example_constructors (live_handle 101 2) ?p0 ''ctx'')"
  have ok: "fst (grpcPlugin_Start example_constructors (live_handle 101 2) ?p0 ''ctx'') = None"
    by (simp add: grpcPlugin_Start_def example_constructors_def live_handle_def)
  have alive: "\<not> Exited (live_handle 101 2)" and sp: "spawned (live_handle 101 2)"
    by (simp_all add: live_handle_def)
  have stored: "pluginClient ?p1 = Some example_clientV2"
    by (simp add: grpcPlugin_Start_def example_constructors_def live_handle_def)
  have handle: "\<forall>h'. client ?p1 = Some h' \<longrightarrow> spawned h'"
    using sp by (simp add: client_Start)
  note at_start = client_observable_only_while_alive
         [where K = example_constructors and h = "live_handle 101 2" and p = ?p0
            and ctx = "''ctx''"]
  note at_stop = client_observable_only_while_alive [where p = ?p1 and ctx = "''ctx''"]
  from at_start ok alive stored
  have up: "getPluginClient ?p1 = (Some example_clientV2, True)" by auto
  from at_stop handle
  have down: "getPluginClient (snd (grpcPlugin_Stop ?p1 ''ctx'')) = (None, False)"
    and gone: "getPluginClient (subprocess_exit ?p1) = (None, False)"
    by blast+
  from at_stop stored
  have kept: "pluginClient (snd (grpcPlugin_Stop ?p1 ''ctx'')) = Some example_clientV2"
    by simp
  from ok alive sp up down gone kept show ?thesis by simp
qed

section \<open>\<open>Start\<close> called again\<close>

text \<open>
  C5, as the claim has it, fails. \<open>Start\<close> has no test for an earlier start. On a plugin
  that was started with one handle, a second \<open>Start\<close> with the next handle of the factory
  returns nil and stores the new handle in place of the first: it is neither a no-op nor
  an error. And when the second subprocess cannot be spawned, \<open>Start\<close> returns before it
  reaches the assignment of \<open>pluginClient\<close>: the plugin then holds the handle of the
  subprocess that never ran next to the client of the first subprocess, and
  \<open>getPluginClient\<close> hands that client out.
\<close>

theorem second_Start_replaces_handle_counterexample:
  "fst (grpcPlugin_Start example_constructors (live_handle 102 2)
          (snd (grpcPlugin_Start example_constructors (live_handle 101 2)
                  (newPlugin example_descriptor) ''ctx'')) ''ctx'') = None
   \<and> snd (grpcPlugin_Start example_constructors (live_handle 102 2)
          (snd (grpcPlugin_Start example_constructors (live_handle 101 2)
                  (newPlugin example_descriptor) ''ctx'')) ''ctx'')
       \<noteq> snd (grpcPlugin_Start example_constructors (live_handle 101 2)
                  (newPlugin example_descriptor) ''ctx'')
   \<and> client (snd (grpcPlugin_Start example_constructors (failed_handle 103)
          (snd (grpcPlugin_Start example_constructors (live_handle 101 2)
                  (newPlugin example_descriptor) ''ctx'')) ''ctx'')) = Some (failed_handle 103)
   \<and> getPluginClient (snd (grpcPlugin_Start example_constructors (failed_handle 103)
          (snd (grpcPlugin_Start example_constructors (live_handle 101 2)
                  (newPlugin example_descriptor) ''ctx'')) ''ctx''))
       = (Some example_clientV2, True)"
proof -
  let ?p1 = "snd (grpcPlugin_Start example_constructors (live_handle 101 2)
                    (newPlugin example_descriptor) ''ctx'')"
  let ?p2 = "snd (grpcPlugin_Start example_constructors (live_handle 102 2) ?p1 ''ctx'')"
  let ?p3 = "snd (grpcPlugin_Start example_constructors (failed_handle 103) ?p1 ''ctx'')"
  have ok: "fst (grpcPlugin_Start example_constructors (live_handle 102 2) ?p1 ''ctx'') = None"
    by (simp add: grpcPlugin_Start_def example_constructors_def live_handle_def)
  have "client ?p1 = Some (live_handle 101 2)" and "client ?p2 = Some (live_handle 102 2)"
    by (rule client_Start)+
  moreover have "live_handle 102 2 \<noteq> live_handle 101 2"
    by (simp add: live_handle_def)
  ultimately have changed: "?p2 \<noteq> ?p1" by auto
  have stored: "pluginClient ?p1 = Some example_clientV2"
    by (simp add: grpcPlugin_Start_def example_constructors_def live_handle_def)
  have kept: "pluginClient ?p3 = pluginClient ?p1"
    by (simp add: grpcPlugin_Start_def failed_handle_def)
  have handle: "client ?p3 = Some (failed_handle 103)"
    by (rule client_Start)
  have "\<not> Exited (failed_handle 103)"
    by (simp add: failed_handle_def)
  with handle kept stored have "getPluginClient ?p3 = (Some example_clientV2, True)"
    by (simp add: getPluginClient_def)
  with ok changed handle show ?thesis by simp
qed

text \<open>
  C5, amended. \<open>Start\<close> called again runs as a first \<open>Start\<close> does. It stores the handle
  the factory returns in this call in place of the stored one, and returns what \<open>Start\<close>
  on a new plugin of the same descriptor returns with that handle, so its result is a
  function of the handle and of the constructors alone. Once the RPC connection of the new
  handle is obtained, the state it leaves is the state that first \<open>Start\<close> leaves (the
  decommissioned flag apart, which \<open>Start\<close> does not touch); when it succeeds, the client
  stored is not nil.
\<close>

theorem repeated_Start_runs_as_first_Start:
  "client (snd (grpcPlugin_Start K h p ctx)) = Some h
   \<and> fst (grpcPlugin_Start K h p ctx) = fst (grpcPlugin_Start K h (newPlugin (descriptor p)) ctx)
   \<and> (\<forall>rpcClient. Client h = Inr rpcClient \<longrightarrow>
         snd (grpcPlugin_Start K h p ctx)
           = (snd (grpcPlugin_Start K h (newPlugin (descriptor p)) ctx))
               \<lparr>decommissioned := decommissioned p\<rparr>)
   \<and> (fst (grpcPlugin_Start K h p ctx) = None \<longrightarrow>
         pluginClient (snd (grpcPlugin_Start K h p ctx)) \<noteq> None)"
proof (intro conjI)
  show "client (snd (grpcPlugin_Start K h p ctx)) = Some h"
    by (rule client_Start)
  show "fst (grpcPlugin_Start K h p ctx) = fst (grpcPlugin_Start K h (newPlugin (descriptor p)) ctx)"
    by (simp add: grpcPlugin_Start_def newPlugin_def Let_def
        split: sum.splits prod.splits option.splits)
  show "\<forall>rpcClient. Client h = Inr rpcClient \<longrightarrow>
         snd (grpcPlugin_Start K h p ctx)
           = (snd (grpcPlugin_Start K h (newPlugin (descriptor p)) ctx))
               \<lparr>decommissioned := decommissioned p\<rparr>"
    by (cases p) (simp add: grpcPlugin_Start_def newPlugin_def Let_def
        split: sum.splits prod.splits option.splits)
  show "fst (grpcPlugin_Start K h p ctx) = None \<longrightarrow>
         pluginClient (snd (grpcPlugin_Start K h p ctx)) \<noteq> None"
    by (auto simp add: grpcPlugin_Start_def Let_def
        split: sum.splits prod.splits option.splits)
qed

theorem repeated_Start_runs_as_first_Start_witness:
  "Client (live_handle 102 2) = Inr 102
   \<and> snd (grpcPlugin_Start example_constructors (live_handle 102 2)
          (snd (grpcPlugin_Start example_constructors (live_handle 101 2)
                  (newPlugin example_descriptor) ''ctx'')) ''ctx'')
       = snd (grpcPlugin_Start example_constructors (live_handle 102 2)
                (newPlugin example_descriptor) ''ctx'')"
proof -
  let ?p1 = "snd (grpcPlugin_Start example_constructors (live_handle 101 2)
                    (newPlugin example_descriptor) ''ctx'')"
  have c: "Client (live_handle 102 2) = Inr 102"
    by (simp add: live_handle_def)
  have d: "descriptor ?p1 = example_descriptor"
    by (simp add: grpcPlugin_Start_def newPlugin_def example_constructors_def live_handle_def)
  have f: "decommissioned ?p1 = False"
    by (simp add: grpcPlugin_Start_def newPlugin_def example_constructors_def live_handle_def)
  have g: "decommissioned (snd (grpcPlugin_Start example_constructors (live_handle 102 2)
             (newPlugin example_descriptor) ''ctx'')) = False"
    by (simp add: grpcPlugin_Start_def newPlugin_def example_constructors_def live_handle_def)
  from repeated_Start_runs_as_first_Start
         [where K = example_constructors and h = "live_handle 102 2" and p = ?p1
            and ctx = "''ctx''"] c
  have "snd (grpcPlugin_Start example_constructors (live_handle 102 2) ?p1 ''ctx'')
          = (snd (grpcPlugin_Start example_constructors (live_handle 102 2)
                    (newPlugin (descriptor ?p1)) ''ctx''))\<lparr>decommissioned := decommissioned ?p1\<rparr>"
    by blast
  also have "\<dots> = snd (grpcPlugin_Start example_constructors (live_handle 102 2)
                        (newPlugin example_descriptor) ''ctx'')"
    using g by (simp only: d f) simp
  finally show ?thesis using c by simp
qed

section \<open>Which lock each method takes\<close>

lemma step_in_successors: "step i c = Some c' \<Longrightarrow> c' \<in> set (successors c)"
  by (cases c)
    (auto simp add: map_filter_def split: if_splits list.splits intro!: image_eqI [where x = i])

lemma reach_mono: "set cs \<subseteq> set (reach n cs)"
  by (cases n) auto

lemma exec_in_reach:
  "exec sched c = Some c' \<Longrightarrow> c \<in> set cs \<Longrightarrow> length sched \<le> n \<Longrightarrow> c' \<in> set (reach n cs)"
proof (induction sched arbitrary: c cs n)
  case Nil
  then show ?case using reach_mono [of cs n] by auto
next
  case (Cons i sched)
  from Cons.prems(1) obtain c1 where s: "step i c = Some c1" and e: "exec sched c1 = Some c'"
    by (auto split: option.splits)
  from Cons.prems(3) obtain k where n: "n = Suc k" and k: "length sched \<le> k"
    by (cases n) auto
  from step_in_successors [OF s] Cons.prems(2)
  have "c1 \<in> set (remdups (concat (map successors cs)))" by auto
  from Cons.IH [OF e this k] show ?case by (simp add: n)
qed

lemma step_remaining:
  assumes "step i c = Some c'"
  shows "remaining c = Suc (remaining c')"
proof -
  obtain m ts where c: "c = (m, ts)" by (cases c)
  from assms c obtain a rest where i: "i < length ts" and at: "ts ! i = a # rest"
    and c': "c' = (effect a m, ts[i := rest])"
    by (auto split: if_splits list.splits)
  have le: "length (ts ! i) \<le> sum_list (map length ts)"
    using i elem_le_sum_list [of i "map length ts"] by simp
  have "sum_list (map length (ts[i := rest]))
          = sum_list (map length ts) + length rest - length (ts ! i)"
    using i by (simp add: map_update sum_list_update)
  with le at show ?thesis
    by (simp add: remaining_def c c')
qed

lemma exec_remaining: "exec sched c = Some c' \<Longrightarrow> length sched \<le> remaining c"
proof (induction sched arbitrary: c)
  case Nil
  then show ?case by simp
next
  case (Cons i sched)
  from Cons.prems obtain c1 where s: "step i c = Some c1" and e: "exec sched c1 = Some c'"
    by (auto split: option.splits)
  from Cons.IH [OF e] step_remaining [OF s] show ?case by simp
qed

text \<open>
  \<open>race_free\<close> covers every schedule: whatever the interleaving of the two goroutines, no
  configuration on the way is a data race.
\<close>

lemma race_free_every_schedule:
  assumes "race_free a b" and "exec sched (initial [body a, body b]) = Some c"
  shows "\<not> data_race c"
proof -
  have "remaining (initial [body a, body b]) = length (body a) + length (body b)"
    by (simp add: remaining_def initial_def)
  with exec_remaining [OF assms(2)]
  have "length sched \<le> length (body a) + length (body b)" by simp
  with exec_in_reach [OF assms(2), of "[initial [body a, body b]]"]
  have "c \<in> set (reach (length (body a) + length (body b)) [initial [body a, body b]])"
    by simp
  with assms(1) show ?thesis
    by (simp add: race_free_def list_all_iff)
qed

text \<open>
  The four methods that lock as the fields require (\<open>Start\<close> and \<open>Stop\<close> exclusively,
  \<open>Exited\<close> and \<open>getPluginClient\<close> shared) are race free, each against each.
\<close>

lemma lifecycle_methods_race_free:
  "list_all (\<lambda>(a, b). race_free a b)
     (List.product [M_Start, M_Stop, M_Exited, M_getPluginClient]
        [M_Start, M_Stop, M_Exited, M_getPluginClient])"
  unfolding race_free_def by code_simp

lemma locked_methods_never_race:
  assumes "a \<in> set [M_Start, M_Stop, M_Exited, M_getPluginClient]"
    and "b \<in> set [M_Start, M_Stop, M_Exited, M_getPluginClient]"
    and "exec sched (initial [body a, body b]) = Some c"
  shows "\<not> data_race c"
proof -
  from assms(1,2)
  have "(a, b) \<in> set (List.product [M_Start, M_Stop, M_Exited, M_getPluginClient]
                        [M_Start, M_Stop, M_Exited, M_getPluginClient])"
    by (simp only: set_product mem_Sigma_iff)
  with lifecycle_methods_race_free have "race_free a b"
    by (simp only: list_all_iff) blast
  from race_free_every_schedule [OF this assms(3)] show ?thesis .
qed

text \<open>
  C9. \<open>Start\<close> and \<open>Stop\<close> begin by taking the exclusive lock, \<open>Exited\<close> and
  \<open>getPluginClient\<close> by taking the shared lock. \<open>Decommission\<close> takes the shared lock, never
  the exclusive one, and writes \<open>decommissioned\<close> while holding it; \<open>IsDecommissioned\<close>
  takes no lock. So once a goroutine in \<open>Decommission\<close> has taken its lock, its write and
  the read of a goroutine in \<open>IsDecommissioned\<close> are both ready to go: a data race. Two
  goroutines in \<open>Decommission\<close> hold the shared lock together and race on the write.
\<close>

theorem Decommission_writes_under_shared_lock:
  "take 1 (body M_Start) = [Lock] \<and> take 1 (body M_Stop) = [Lock]
   \<and> take 1 (body M_Exited) = [RLock] \<and> take 1 (body M_getPluginClient) = [RLock]
   \<and> take 1 (body M_Decommission) = [RLock]
   \<and> Lock \<notin> set (body M_Decommission)
   \<and> Write decommissioned_field \<in> set (body M_Decommission)
   \<and> Lock \<notin> set (body M_IsDecommissioned)
   \<and> RLock \<notin> set (body M_IsDecommissioned)
   \<and> (case exec [0] (initial [body M_Decommission, body M_IsDecommissioned]) of
         None \<Rightarrow> False
       | Some c \<Rightarrow> data_race c)
   \<and> (case exec [0, 1] (initial [body M_Decommission, body M_Decommission]) of
         None \<Rightarrow> False
       | Some c \<Rightarrow> data_race c)"
  by (simp add: initial_def data_race_def)

end
